theory Spec2Isabelle
  imports Complex_Main
begin

section \<open>The unstructured grid of \<^verbatim>\<open>unstructuredgrid.py\<close>\<close>

text \<open>
  A shallow embedding of the class \<^verbatim>\<open>UnstructuredGrid\<close>. Python objects become
  records, \<^verbatim>\<open>None\<close> becomes \<open>None\<close> of an option type, a raised exception becomes
  the left summand of a sum type, and a method that mutates \<^verbatim>\<open>self\<close> returns the
  new state. Coordinates are kept polymorphic (type \<open>'a\<close>): the model uses only the
  operations the source applies to them. Integers are Python's unbounded integers
  (type \<open>int\<close>); a numpy array is the list of its elements, and where the array has
  64-bit integer elements the range and the wrap-around are written out.
\<close>

subsection \<open>Exceptions\<close>

text \<open>
  The exceptions the modelled code can raise. Where the source gives a message the
  string holds it (without the numbers an f-string interpolates); an exception raised by
  the interpreter itself (\<^verbatim>\<open>None\<close> iterated, subscripted or multiplied; a key or an
  index that does not exist) carries the name of the offending expression, or nothing.
\<close>

datatype error =
    TypeError string
  | AssertionError string
  | ValueError string
  | Exception string
  | KeyError
  | IndexError
  | OverflowError
  | ZeroDivisionError

subsection \<open>Python sequences\<close>

text \<open>
  \<^verbatim>\<open>xs[i]\<close> for a Python list or a one-dimensional array: a negative index counts
  from the end, an index out of range raises \<^verbatim>\<open>IndexError\<close>.
\<close>

definition getitem :: "'b list \<Rightarrow> int \<Rightarrow> error + 'b" where
  "getitem xs i =
     (if 0 \<le> i \<and> i < int (length xs) then Inr (xs ! nat i)
      else if i < 0 \<and> - int (length xs) \<le> i then Inr (xs ! nat (int (length xs) + i))
      else Inl IndexError)"

text \<open>
  \<^verbatim>\<open>xs[a:b]\<close> on a Python list: each bound is taken from the end when negative and
  clipped to the list; the slice is empty when the bounds cross.
\<close>

definition slice_bound :: "nat \<Rightarrow> int \<Rightarrow> nat" where
  "slice_bound n i = (if i < 0 then nat (int n + i) else min n (nat i))"

definition slice :: "'b list \<Rightarrow> int \<Rightarrow> int \<Rightarrow> 'b list" where
  "slice xs a b = drop (slice_bound (length xs) a) (take (slice_bound (length xs) b) xs)"

subsection \<open>Integer arrays\<close>

text \<open>
  \<^verbatim>\<open>np.array(..., dtype=int)\<close> is an array of 64-bit signed integers: an element
  must lie in the range \<open>int64\<close>, and the array's \<^verbatim>\<open>sum()\<close> wraps around as
  \<open>wrap64\<close> does.
\<close>

definition int64 :: "int \<Rightarrow> bool" where
  "int64 i = (- 9223372036854775808 \<le> i \<and> i < 9223372036854775808)"

definition wrap64 :: "int \<Rightarrow> int" where
  "wrap64 i = (i + 9223372036854775808) mod 18446744073709551616 - 9223372036854775808"

subsection \<open>The state of a grid\<close>

text \<open>
  The two entries of the geometry cache: \<^verbatim>\<open>"cellcenters"\<close> holds
  \<^verbatim>\<open>[xcenters, ycenters, zcenters]\<close> and \<^verbatim>\<open>"xyzgrid"\<close> holds
  \<^verbatim>\<open>[xvertices, yvertices, zvertices]\<close>. The z data comes from the base class
  (\<^verbatim>\<open>Grid._zcoords\<close>); the model keeps of it the two rows that \<^verbatim>\<open>intersect\<close>
  reads, \<^verbatim>\<open>zv[0]\<close> (cell tops) and \<^verbatim>\<open>zv[1]\<close> (cell bottoms), and leaves the
  z centers out.
\<close>

datatype 'a geometry =
    CellCenters "'a list option" "'a list option"
  | XYZGrid "'a list list" "'a list list" "('a list \<times> 'a list) option"

record 'a CachedData =
  data_nocopy :: "'a geometry"
  out_of_date :: bool

text \<open>
  The attributes of an \<^verbatim>\<open>UnstructuredGrid\<close>; a private attribute \<^verbatim>\<open>_name\<close> of
  the source is the field \<open>name'\<close>. A vertex is \<^verbatim>\<open>[iv, xv, yv]\<close>; an entry of a
  cell's vertex list may be \<^verbatim>\<open>None\<close> (the property \<^verbatim>\<open>iverts\<close> filters such
  entries out). The simulation metadata the constructor only stores (\<^verbatim>\<open>nodes\<close>,
  \<^verbatim>\<open>njag\<close>, \<^verbatim>\<open>nper\<close>, ...) is read by none of the modelled operations and is
  left out.
\<close>

record 'a mesh =
  vertices' :: "(int \<times> 'a \<times> 'a) list option"
  iverts' :: "int option list list option"
  xc' :: "'a list option"
  yc' :: "'a list option"
  top' :: "'a list option"
  botm' :: "'a list option"
  idomain' :: "int list option"
  lenuni' :: "int option"
  ncpl' :: "int list option"
  crs' :: "string option"
  prjfile' :: "string option"
  xoff' :: 'a
  yoff' :: 'a
  angrot' :: 'a
  iac' :: "int list option"
  ja' :: "int list option"
  neighbors' :: "(int \<times> int list) list option"
  cache_dict' :: "string \<Rightarrow> 'a CachedData option"

subsection \<open>Validity and completeness\<close>

text \<open>The property \<^verbatim>\<open>is_valid\<close>, with the source's four tests in their order.\<close>

definition is_valid :: "'a mesh \<Rightarrow> bool" where
  "is_valid m =
     (let iv = True;
          iv = (if iverts' m = None then False else iv);
          iv = (if vertices' m = None then False else iv);
          iv = (if xc' m = None then False else iv);
          iv = (if yc' m = None then False else iv)
      in iv)"

text \<open>
  The property \<^verbatim>\<open>is_complete\<close>. The source tests
  \<^verbatim>\<open>self.is_valid is not None\<close>: the value of \<^verbatim>\<open>is_valid\<close> is a Boolean, here
  \<open>Some (is_valid m)\<close> among the values that could be \<^verbatim>\<open>None\<close>. The second
  operand, \<^verbatim>\<open>super().is_complete\<close>, is a property of the base class \<^verbatim>\<open>Grid\<close>,
  which is not among the sources: the value it returns for the grid is the parameter
  \<open>super_is_complete\<close>.
\<close>

definition is_complete :: "bool \<Rightarrow> 'a mesh \<Rightarrow> bool" where
  "is_complete super_is_complete m =
     (if Some (is_valid m) \<noteq> None \<and> super_is_complete then True else False)"

subsection \<open>Cells per layer\<close>

text \<open>
  Modelled from the spec: \<^verbatim>\<open>Grid._require_cache_updates\<close> belongs to the base
  class; it tags every cache entry out of date.
\<close>

definition require_cache_updates :: "'a mesh \<Rightarrow> 'a mesh" where
  "require_cache_updates m =
     m\<lparr>cache_dict' := (\<lambda>k. map_option (\<lambda>c. c\<lparr>out_of_date := True\<rparr>) (cache_dict' m k))\<rparr>"

text \<open>
  The argument of \<^verbatim>\<open>set_ncpl\<close>: a Python \<^verbatim>\<open>int\<close>; a list, tuple or array that
  \<^verbatim>\<open>np.array(ncpl, dtype=int)\<close> turns into an array of the given number of
  dimensions with the given elements; a list or tuple that holds an integer beyond the
  64-bit range, for which \<^verbatim>\<open>np.array\<close> raises \<^verbatim>\<open>OverflowError\<close>; or a value of
  any other type.
\<close>

datatype ncpl_arg = NInt int | NArr nat "int list" | NOverflow | NOther

definition set_ncpl :: "'a mesh \<Rightarrow> ncpl_arg \<Rightarrow> error + 'a mesh" where
  "set_ncpl m v =
     (case (case v of
              NInt n \<Rightarrow> if int64 n then Inr (NArr 1 [n]) else Inl OverflowError
            | _ \<Rightarrow> Inr v) of
        Inl e \<Rightarrow> Inl e
      | Inr v \<Rightarrow>
          (case v of
             NArr ndim c \<Rightarrow>
               if ndim = 1 then Inr (require_cache_updates (m\<lparr>ncpl' := Some c\<rparr>))
               else Inl (AssertionError ''ncpl must be 1d'')
           | NOverflow \<Rightarrow> Inl OverflowError
           | _ \<Rightarrow> Inl (TypeError ''ncpl must be a list, tuple or ndarray'')))"

definition nlay :: "'a mesh \<Rightarrow> int option" where
  "nlay m = (case ncpl' m of None \<Rightarrow> None | Some c \<Rightarrow> Some (int (length c)))"

text \<open>
  The property \<^verbatim>\<open>nnodes\<close>, \<^verbatim>\<open>self.ncpl.sum()\<close>: the sum of a 64-bit array,
  which wraps around.
\<close>

definition nnodes :: "'a mesh \<Rightarrow> int option" where
  "nnodes m = (case ncpl' m of None \<Rightarrow> None | Some c \<Rightarrow> Some (wrap64 (sum_list c)))"

definition grid_varies_by_layer :: "'a mesh \<Rightarrow> error + bool" where
  "grid_varies_by_layer m =
     (if is_valid m then
        (case ncpl' m of
           None \<Rightarrow> Inl (TypeError ''self.ncpl[0]'')
         | Some c \<Rightarrow>
             (case getitem c 0 of
                Inl e \<Rightarrow> Inl e
              | Inr c0 \<Rightarrow>
                  (case iverts' m of
                     None \<Rightarrow> Inl (TypeError ''len(self._iverts)'')
                   | Some ivs \<Rightarrow> Inr (if c0 = int (length ivs) then False else True))))
      else Inr False)"

subsection \<open>The constructor\<close>

text \<open>
  The keyword arguments of \<^verbatim>\<open>__init__\<close> that the model keeps. A row of
  \<^verbatim>\<open>cell2d\<close> is \<^verbatim>\<open>[id, x, y, nvert, v1, v2, ...]\<close>.
\<close>

record 'a grid_args =
  a_vertices :: "(int \<times> 'a \<times> 'a) list option"
  a_iverts :: "int option list list option"
  a_xcenters :: "'a list option"
  a_ycenters :: "'a list option"
  a_top :: "'a list option"
  a_botm :: "'a list option"
  a_idomain :: "int list option"
  a_lenuni :: "int option"
  a_ncpl :: "ncpl_arg option"
  a_crs :: "string option"
  a_prjfile :: "string option"
  a_xoff :: 'a
  a_yoff :: 'a
  a_angrot :: 'a
  a_iac :: "int list option"
  a_ja :: "int list option"
  a_cell2d :: "(int \<times> 'a \<times> 'a \<times> int \<times> int option list) list option"

text \<open>The defaults of the keyword arguments.\<close>

definition no_args :: "('a::zero) grid_args" where
  "no_args =
     \<lparr>a_vertices = None, a_iverts = None, a_xcenters = None, a_ycenters = None,
      a_top = None, a_botm = None, a_idomain = None, a_lenuni = None, a_ncpl = None,
      a_crs = None, a_prjfile = None, a_xoff = 0, a_yoff = 0, a_angrot = 0,
      a_iac = None, a_ja = None, a_cell2d = None\<rparr>"

text \<open>
  The centers and cell lists the constructor stores: those of \<^verbatim>\<open>cell2d\<close> when it
  is given (\<^verbatim>\<open>i[1]\<close>, \<^verbatim>\<open>i[2]\<close> and \<^verbatim>\<open>list(t)[4:]\<close> of each row), the
  separate arguments otherwise.
\<close>

definition init_arrays ::
  "'a grid_args \<Rightarrow> 'a list option \<times> 'a list option \<times> int option list list option" where
  "init_arrays a =
     (case a_cell2d a of
        Some c2d \<Rightarrow>
          (Some (map (\<lambda>(i, x, y, n, vs). x) c2d),
           Some (map (\<lambda>(i, x, y, n, vs). y) c2d),
           Some (map (\<lambda>(i, x, y, n, vs). vs) c2d))
      | None \<Rightarrow> (a_xcenters a, a_ycenters a, a_iverts a))"

text \<open>
  The constructor's check of the length of \<^verbatim>\<open>iverts\<close> against \<^verbatim>\<open>ncpl\<close>
  (the two assertions).
\<close>

definition check_iverts :: "'a mesh \<Rightarrow> error + unit" where
  "check_iverts m =
     (case iverts' m of
        None \<Rightarrow> Inr ()
      | Some ivs \<Rightarrow>
          (case grid_varies_by_layer m of
             Inl e \<Rightarrow> Inl e
           | Inr True \<Rightarrow>
               if Some (int (length ivs)) = nnodes m then Inr ()
               else Inl (AssertionError ''Length of iverts must equal grid nodes'')
           | Inr False \<Rightarrow>
               (case ncpl' m of
                  None \<Rightarrow> Inl (TypeError ''for cpl in self.ncpl'')
                | Some c \<Rightarrow>
                    if list_all (\<lambda>cpl. cpl = int (length ivs)) c then Inr ()
                    else Inl (AssertionError ''Length of iverts must equal ncpl''))))"

text \<open>
  \<^verbatim>\<open>UnstructuredGrid.__init__\<close>. The base class's constructor is taken to store
  its arguments, to start with an empty cache and with no neighbor table, and not to
  raise.
\<close>

definition init :: "'a grid_args \<Rightarrow> error + 'a mesh" where
  "init a =
     (case init_arrays a of (xcenters, ycenters, iverts) \<Rightarrow>
       (let m = \<lparr>vertices' = a_vertices a, iverts' = iverts, xc' = xcenters,
                 yc' = ycenters, top' = a_top a, botm' = a_botm a,
                 idomain' = a_idomain a, lenuni' = a_lenuni a, ncpl' = None,
                 crs' = a_crs a, prjfile' = a_prjfile a, xoff' = a_xoff a,
                 yoff' = a_yoff a, angrot' = a_angrot a, iac' = None, ja' = None,
                 neighbors' = None, cache_dict' = (\<lambda>k. None)\<rparr>
        in case (case a_ncpl a of
                   Some v \<Rightarrow> set_ncpl m v
                 | None \<Rightarrow>
                     if is_valid m then
                       (case iverts of
                          None \<Rightarrow> Inl (TypeError ''len(iverts)'')
                        | Some ivs \<Rightarrow> set_ncpl m (NInt (int (length ivs))))
                     else Inr m) of
             Inl e \<Rightarrow> Inl e
           | Inr m \<Rightarrow>
               (case check_iverts m of
                  Inl e \<Rightarrow> Inl e
                | Inr u \<Rightarrow> Inr (m\<lparr>iac' := a_iac a, ja' := a_ja a\<rparr>))))"

subsection \<open>The cell table \<^verbatim>\<open>cell2d\<close>\<close>








subsection \<open>Neighbors from \<^verbatim>\<open>iac\<close> and \<^verbatim>\<open>ja\<close>\<close>

text \<open>
  The loop \<^verbatim>\<open>for node, ia in enumerate(self._iac)\<close> of \<^verbatim>\<open>neighbors\<close>: the
  table it builds, in insertion order. The loop body assigns \<^verbatim>\<open>idx1\<close> and the
  table entry and nothing else, so \<^verbatim>\<open>idx0\<close> keeps its value.
\<close>

fun iac_loop :: "int list \<Rightarrow> int \<Rightarrow> int \<Rightarrow> int list \<Rightarrow> (int \<times> int list) list" where
  "iac_loop ja idx0 node [] = []"
| "iac_loop ja idx0 node (ia # rest) =
     (let idx1 = idx0 + ia
      in (node, slice ja (idx0 + 1) idx1) # iac_loop ja idx0 (node + 1) rest)"

text \<open>What \<^verbatim>\<open>neighbors\<close> returns: one node's list, or the whole table.\<close>

datatype neighbor_result = NodeNeighbors "int list" | AllNeighbors "(int \<times> int list) list"

text \<open>
  \<^verbatim>\<open>neighbors(node, method="iac", reset=reset)\<close>, with the state after the call.
  The loop variable is named \<^verbatim>\<open>node\<close> like the parameter: after a loop over a
  non-empty \<^verbatim>\<open>iac\<close> it holds the last index. The other methods belong to the base
  class and are not modelled.
\<close>

definition neighbors_iac ::
  "'a mesh \<Rightarrow> int option \<Rightarrow> bool \<Rightarrow> (error + neighbor_result) \<times> 'a mesh" where
  "neighbors_iac m node reset =
     (case (if neighbors' m = None \<or> reset then
              (case iac' m of
                 None \<Rightarrow> Inl (TypeError ''enumerate(self._iac)'')
               | Some iac \<Rightarrow>
                   if iac = [] then Inr (m\<lparr>neighbors' := Some []\<rparr>, node)
                   else
                     (case ja' m of
                        None \<Rightarrow> Inl (TypeError ''self._ja[idx0 + 1 : idx1]'')
                      | Some ja \<Rightarrow>
                          Inr (m\<lparr>neighbors' := Some (iac_loop ja 0 0 iac)\<rparr>,
                               Some (int (length iac) - 1))))
            else Inr (m, node)) of
        Inl e \<Rightarrow> (Inl e, m)
      | Inr (m2, node2) \<Rightarrow>
          (case neighbors' m2 of
             None \<Rightarrow> (Inl (TypeError ''self._neighbors[node]''), m2)
           | Some table \<Rightarrow>
               (case node2 of
                  None \<Rightarrow> (Inr (AllNeighbors table), m2)
                | Some n \<Rightarrow>
                    (case map_of table n of
                       None \<Rightarrow> (Inl KeyError, m2)
                     | Some ns \<Rightarrow> (Inr (NodeNeighbors ns), m2)))))"

text \<open>
  The neighbor list as the spec words it: the slice of \<^verbatim>\<open>ja\<close> from
  \<open>offset + 1\<close> to \<open>offset + iac[n]\<close>, where \<open>offset\<close> is the sum of
  \<^verbatim>\<open>iac[0..n-1]\<close>.
\<close>

definition spec_neighbors :: "int list \<Rightarrow> int list \<Rightarrow> nat \<Rightarrow> int list" where
  "spec_neighbors iac ja n =
     (let offset = sum_list (take n iac)
      in slice ja (offset + 1) (offset + iac ! n))"

subsection \<open>The header of a grid specification file\<close>

text \<open>
  Strings are ASCII. \<^verbatim>\<open>str.isspace\<close> on ASCII: tab, line feed, vertical tab, form
  feed, carriage return, the four separators \<^verbatim>\<open>0x1c\<close> to \<^verbatim>\<open>0x1f\<close>, and the
  space.
\<close>

definition isspace :: "char \<Rightarrow> bool" where
  "isspace c =
     (c \<in> set [CHR 0x09, CHR 0x0A, CHR 0x0B, CHR 0x0C, CHR 0x0D, CHR 0x1C, CHR 0x1D,
                CHR 0x1E, CHR 0x1F, CHR '' ''])"

definition str_strip :: "string \<Rightarrow> string" where
  "str_strip s = rev (dropWhile isspace (rev (dropWhile isspace s)))"

text \<open>\<^verbatim>\<open>s.split()\<close>: the maximal runs of characters that are not whitespace.\<close>

fun str_split_from :: "string \<Rightarrow> string \<Rightarrow> string list" where
  "str_split_from w [] = (if w = [] then [] else [w])"
| "str_split_from w (c # cs) =
     (if isspace c then (if w = [] then str_split_from [] cs else w # str_split_from [] cs)
      else str_split_from (w @ [c]) cs)"

definition str_split :: "string \<Rightarrow> string list" where
  "str_split s = str_split_from [] s"

definition upper_char :: "char \<Rightarrow> char" where
  "upper_char c =
     (case map_of (zip ''abcdefghijklmnopqrstuvwxyz'' ''ABCDEFGHIJKLMNOPQRSTUVWXYZ'') c of
        None \<Rightarrow> c
      | Some u \<Rightarrow> u)"

definition str_upper :: "string \<Rightarrow> string" where
  "str_upper s = map upper_char s"

text \<open>
  The local function \<^verbatim>\<open>split_line\<close> of \<^verbatim>\<open>from_gridspec\<close>, applied to the
  line \<^verbatim>\<open>file.readline()\<close> returned.
\<close>

definition split_line :: "string \<Rightarrow> string list" where
  "split_line l = map str_upper (str_split (str_strip l))"

text \<open>The loop test \<^verbatim>\<open>header[0][0] == "#"\<close>.\<close>

definition starts_comment :: "string list \<Rightarrow> error + bool" where
  "starts_comment header =
     (case header of
        [] \<Rightarrow> Inl IndexError
      | h # hs \<Rightarrow> (case h of [] \<Rightarrow> Inl IndexError | c # cs \<Rightarrow> Inr (c = CHR ''#'')))"

text \<open>
  The loop \<^verbatim>\<open>while header[0][0] == "#": header = split_line()\<close> over the lines
  still unread; at the end of the file \<^verbatim>\<open>readline\<close> returns the empty string.
\<close>

fun skip_comments :: "string list \<Rightarrow> string list \<Rightarrow> error + (string list \<times> string list)" where
  "skip_comments header [] =
     (case starts_comment header of
        Inl e \<Rightarrow> Inl e
      | Inr True \<Rightarrow> (case starts_comment (split_line []) of
                       Inl e \<Rightarrow> Inl e
                     | Inr b \<Rightarrow> Inl IndexError)
      | Inr False \<Rightarrow> Inr (header, []))"
| "skip_comments header (l # ls) =
     (case starts_comment header of
        Inl e \<Rightarrow> Inl e
      | Inr True \<Rightarrow> skip_comments (split_line l) ls
      | Inr False \<Rightarrow> Inr (header, l # ls))"

text \<open>The condition under which \<^verbatim>\<open>from_gridspec\<close> raises \<^verbatim>\<open>ValueError\<close>.\<close>

definition invalid_header :: "string list \<Rightarrow> bool" where
  "invalid_header header =
     (\<not> (length header = 1 \<and> header ! 0 = ''UNSTRUCTURED'')
      \<or> (length header = 2 \<and> header = [''UNSTRUCTURED'', ''GWF'']))"

text \<open>
  The first part of \<^verbatim>\<open>from_gridspec\<close>, up to the check of the header: the error
  it raises, or the lines left for the body.
\<close>

definition gridspec_header :: "string list \<Rightarrow> error + string list" where
  "gridspec_header f =
     (case (case f of [] \<Rightarrow> skip_comments (split_line []) [] | l # ls \<Rightarrow> skip_comments (split_line l) ls) of
        Inl e \<Rightarrow> Inl e
      | Inr (header, rest) \<Rightarrow>
          if invalid_header header then Inl (ValueError ''Invalid GSF file, no header'')
          else Inr rest)"


subsection \<open>Scaling a grid\<close>

text \<open>
  The constructor stores the center and elevation arguments as they are given, a
  Python list or a numpy array, and \<^verbatim>\<open>*\<close> treats the two differently. The record
  of a grid keeps the elements of a sequence only, so how the four sequences are stored
  is given separately.
\<close>

datatype seq_kind = PyList | NdArray

record kinds =
  xc_kind :: seq_kind
  yc_kind :: seq_kind
  top_kind :: seq_kind
  botm_kind :: seq_kind

text \<open>The factor: a Python \<^verbatim>\<open>int\<close> or a Python \<^verbatim>\<open>float\<close>.\<close>

datatype 'a number = PyInt int | PyFloat 'a

definition num_times :: "('a::ring_1) \<Rightarrow> 'a number \<Rightarrow> 'a" where
  "num_times v factor = (case factor of PyInt k \<Rightarrow> v * of_int k | PyFloat f \<Rightarrow> v * f)"

text \<open>
  \<^verbatim>\<open>seq * factor\<close>: a numpy array is multiplied element by element; a list is
  repeated by an \<^verbatim>\<open>int\<close> (not at all when the \<^verbatim>\<open>int\<close> is not positive) and
  raises \<^verbatim>\<open>TypeError\<close> for a \<^verbatim>\<open>float\<close>.
\<close>

definition seq_times :: "seq_kind \<Rightarrow> ('a::ring_1) list \<Rightarrow> 'a number \<Rightarrow> error + 'a list" where
  "seq_times kind xs factor =
     (case kind of
        NdArray \<Rightarrow> Inr (map (\<lambda>v. num_times v factor) xs)
      | PyList \<Rightarrow>
          (case factor of
             PyInt k \<Rightarrow> Inr (concat (replicate (nat k) xs))
           | PyFloat f \<Rightarrow>
               Inl (TypeError ''list * float'')))"

text \<open>
  \<^verbatim>\<open>convert_grid(factor)\<close>. The keyword arguments of the constructor call are
  evaluated in the order written, so the first that raises decides. The properties
  \<^verbatim>\<open>top\<close>, \<^verbatim>\<open>botm\<close>, \<^verbatim>\<open>idomain\<close>, \<^verbatim>\<open>xoffset\<close>, \<^verbatim>\<open>yoffset\<close> and
  \<^verbatim>\<open>angrot\<close> belong to the base class and are taken to return the stored
  attributes.
\<close>

definition convert_grid ::
  "bool \<Rightarrow> kinds \<Rightarrow> ('a::ring_1) mesh \<Rightarrow> 'a number \<Rightarrow> error + 'a mesh" where
  "convert_grid super_is_complete K m factor =
     (if is_complete super_is_complete m then
        (case vertices' m of
           None \<Rightarrow> Inl (TypeError ''for i in self._vertices'')
         | Some vs \<Rightarrow>
        (case (case xc' m of
                 None \<Rightarrow> Inl (TypeError ''self._xc * factor'')
               | Some xs \<Rightarrow> seq_times (xc_kind K) xs factor) of
           Inl e \<Rightarrow> Inl e
         | Inr xcenters \<Rightarrow>
        (case (case yc' m of
                 None \<Rightarrow> Inl (TypeError ''self._yc * factor'')
               | Some ys \<Rightarrow> seq_times (yc_kind K) ys factor) of
           Inl e \<Rightarrow> Inl e
         | Inr ycenters \<Rightarrow>
        (case (case top' m of
                 None \<Rightarrow> Inl (TypeError ''self.top * factor'')
               | Some tops \<Rightarrow> seq_times (top_kind K) tops factor) of
           Inl e \<Rightarrow> Inl e
         | Inr scaled_top \<Rightarrow>
        (case (case botm' m of
                 None \<Rightarrow> Inl (TypeError ''self.botm * factor'')
               | Some botms \<Rightarrow> seq_times (botm_kind K) botms factor) of
           Inl e \<Rightarrow> Inl e
         | Inr scaled_botm \<Rightarrow>
             init \<lparr>a_vertices =
                     Some (map (\<lambda>(i, x, y). (i, num_times x factor, num_times y factor)) vs),
                   a_iverts = iverts' m,
                   a_xcenters = Some xcenters, a_ycenters = Some ycenters,
                   a_top = Some scaled_top, a_botm = Some scaled_botm,
                   a_idomain = idomain' m, a_lenuni = None, a_ncpl = None,
                   a_crs = None, a_prjfile = None,
                   a_xoff = num_times (xoff' m) factor,
                   a_yoff = num_times (yoff' m) factor,
                   a_angrot = angrot' m, a_iac = None, a_ja = None,
                   a_cell2d = None\<rparr>)))))
      else Inl (AssertionError ''Grid is not complete and cannot be converted''))"

subsection \<open>Merging duplicate vertices\<close>

text \<open>The property \<^verbatim>\<open>iverts\<close>: the cell lists without their \<^verbatim>\<open>None\<close> entries.\<close>

definition iverts :: "'a mesh \<Rightarrow> int list list option" where
  "iverts m =
     (case iverts' m of
        None \<Rightarrow> None
      | Some cells \<Rightarrow> Some (map (\<lambda>t. [ivt. Some ivt \<leftarrow> t]) cells))"

text \<open>
  \<^verbatim>\<open>d[k] = v\<close> on a Python dictionary, kept as the list of its items in insertion
  order: an existing key keeps its place, a new one goes last.
\<close>

fun dict_set :: "'k \<Rightarrow> 'v \<Rightarrow> ('k \<times> 'v) list \<Rightarrow> ('k \<times> 'v) list" where
  "dict_set k v [] = [(k, v)]"
| "dict_set k v ((k0, v0) # d) =
     (if k0 = k then (k, v) # d else (k0, v0) # dict_set k v d)"

text \<open>
  A list comprehension whose element expression can raise: the elements are computed
  from left to right and the first exception ends the comprehension.
\<close>

fun map_err :: "('b \<Rightarrow> error + 'c) \<Rightarrow> 'b list \<Rightarrow> error + 'c list" where
  "map_err f [] = Inr []"
| "map_err f (x # xs) =
     (case f x of
        Inl e \<Rightarrow> Inl e
      | Inr y \<Rightarrow> (case map_err f xs of Inl e \<Rightarrow> Inl e | Inr ys \<Rightarrow> Inr (y # ys)))"

text \<open>\<^verbatim>\<open>d[k]\<close> as an expression: \<^verbatim>\<open>KeyError\<close> when the key is absent.\<close>

definition dict_item :: "('k \<Rightarrow> 'v option) \<Rightarrow> 'k \<Rightarrow> error + 'v" where
  "dict_item d k = (case d k of None \<Rightarrow> Inl KeyError | Some v \<Rightarrow> Inr v)"

text \<open>
  The body of the first loop of \<^verbatim>\<open>clean_iverts\<close>, \<^verbatim>\<open>for rec in self._vertices\<close>:
  \<^verbatim>\<open>vset\<close> maps a coordinate pair to the set of vertex ids found at it (a list
  without repetition here; only membership is used).
\<close>

definition vset_step ::
  "(('a \<times> 'a) \<times> int list) list \<Rightarrow> int \<times> 'a \<times> 'a \<Rightarrow> (('a \<times> 'a) \<times> int list) list" where
  "vset_step vset rec =
     (case rec of (iv, xv, yv) \<Rightarrow>
        (case map_of vset (xv, yv) of
           Some ids \<Rightarrow> dict_set (xv, yv) (List.insert iv ids) vset
         | None \<Rightarrow> dict_set (xv, yv) [iv] vset))"

text \<open>
  The body of the second loop, \<^verbatim>\<open>for (xv, yv), iverts in vset.items()\<close>, on the
  state \<^verbatim>\<open>(cnt, ivert_remap, vertices)\<close>.
\<close>

definition remap_step ::
  "int \<times> (int \<Rightarrow> int option) \<times> (int \<times> 'a \<times> 'a) list \<Rightarrow> ('a \<times> 'a) \<times> int list
     \<Rightarrow> int \<times> (int \<Rightarrow> int option) \<times> (int \<times> 'a \<times> 'a) list" where
  "remap_step state item =
     (case state of (cnt, ivert_remap, vertices) \<Rightarrow>
        (case item of ((xv, yv), ids) \<Rightarrow>
           (cnt + 1,
            foldl (\<lambda>r iv. r(iv \<mapsto> cnt)) ivert_remap ids,
            vertices @ [(cnt, xv, yv)])))"

text \<open>The arguments \<^verbatim>\<open>clean_iverts\<close> passes to the constructor.\<close>

definition clean_args ::
  "'a mesh \<Rightarrow> (int \<times> 'a \<times> 'a) list \<Rightarrow> int list list \<Rightarrow> 'a grid_args" where
  "clean_args m vertices ivs =
     \<lparr>a_vertices = Some vertices, a_iverts = Some (map (map Some) ivs),
      a_xcenters = xc' m, a_ycenters = yc' m, a_top = top' m, a_botm = botm' m,
      a_idomain = idomain' m, a_lenuni = lenuni' m,
      a_ncpl = (case ncpl' m of None \<Rightarrow> None | Some c \<Rightarrow> Some (NArr 1 c)),
      a_crs = crs' m, a_prjfile = prjfile' m, a_xoff = xoff' m, a_yoff = yoff' m,
      a_angrot = angrot' m, a_iac = iac' m, a_ja = ja' m, a_cell2d = None\<rparr>"

text \<open>
  \<^verbatim>\<open>clean_iverts(inplace)\<close>: what the call returns (\<open>None\<close>, or the new grid) or
  raises, and the state of \<^verbatim>\<open>self\<close> after it.
\<close>

definition clean_iverts :: "'a mesh \<Rightarrow> bool \<Rightarrow> (error + 'a mesh option) \<times> 'a mesh" where
  "clean_iverts m inplace =
     (if is_valid m then
        (case (vertices' m, iverts m) of
           (Some vs, Some cells) \<Rightarrow>
             (case foldl remap_step (0, Map.empty, []) (foldl vset_step [] vs) of
                (cnt, ivert_remap, vertices) \<Rightarrow>
                  (case map_err (map_err (dict_item ivert_remap)) cells of
                     Inl e \<Rightarrow> (Inl e, m)
                   | Inr ivs \<Rightarrow>
                       if inplace then
                         (Inr None,
                          require_cache_updates
                            (m\<lparr>vertices' := Some vertices,
                               iverts' := Some (map (map Some) ivs)\<rparr>))
                       else
                         (case init (clean_args m vertices ivs) of
                            Inl e \<Rightarrow> (Inl e, m)
                          | Inr new \<Rightarrow> (Inr (Some new), m))))
         | _ \<Rightarrow> (Inl (TypeError ''for rec in self._vertices''), m))
      else (Inr None, m))"

subsection \<open>Cell geometry\<close>

text \<open>
  The first part of \<^verbatim>\<open>_build_grid_geometry_info\<close>: the dictionary
  \<^verbatim>\<open>vertexdict\<close> from vertex id to coordinates (a later vertex with the same id
  replaces an earlier one), and the loops that resolve every cell's vertex ids into
  the lists \<^verbatim>\<open>xvertices\<close> and \<^verbatim>\<open>yvertices\<close>.
\<close>

definition vertexdict :: "(int \<times> 'a \<times> 'a) list \<Rightarrow> int \<Rightarrow> ('a \<times> 'a) option" where
  "vertexdict vs = foldl (\<lambda>d v. case v of (iv, x, y) \<Rightarrow> d(iv \<mapsto> (x, y))) Map.empty vs"

fun cellvert :: "(int \<Rightarrow> ('a \<times> 'a) option) \<Rightarrow> int list \<Rightarrow> error + 'a list \<times> 'a list" where
  "cellvert vd [] = Inr ([], [])"
| "cellvert vd (ix # rest) =
     (case vd ix of
        None \<Rightarrow> Inl KeyError
      | Some (x, y) \<Rightarrow>
          (case cellvert vd rest of
             Inl e \<Rightarrow> Inl e
           | Inr (xcellvert, ycellvert) \<Rightarrow> Inr (x # xcellvert, y # ycellvert)))"

fun xyvertices ::
  "(int \<Rightarrow> ('a \<times> 'a) option) \<Rightarrow> int list list \<Rightarrow> error + 'a list list \<times> 'a list list" where
  "xyvertices vd [] = Inr ([], [])"
| "xyvertices vd (cell # rest) =
     (case cellvert vd cell of
        Inl e \<Rightarrow> Inl e
      | Inr (xcellvert, ycellvert) \<Rightarrow>
          (case xyvertices vd rest of
             Inl e \<Rightarrow> Inl e
           | Inr (xvertices, yvertices) \<Rightarrow>
               Inr (xcellvert # xvertices, ycellvert # yvertices)))"

definition cell_geometry :: "'a mesh \<Rightarrow> error + 'a list list \<times> 'a list list" where
  "cell_geometry m =
     (case vertices' m of
        None \<Rightarrow> Inl (TypeError ''for v in self._vertices'')
      | Some vs \<Rightarrow>
          (case iverts m of
             None \<Rightarrow> Inl (TypeError ''for iverts in self.iverts'')
           | Some cells \<Rightarrow> xyvertices (vertexdict vs) cells))"

text \<open>
  The invariant of the second loop of \<^verbatim>\<open>clean_iverts\<close> on a vertex list \<open>vs\<close> with
  no repeated coordinates, after all of \<open>vs\<close> has been visited: the counter is the
  number of vertices; the new vertices carry the old coordinates in their order; the new
  ids are below the counter; and \<^verbatim>\<open>ivert_remap\<close> sends exactly the ids that
  \<^verbatim>\<open>vertexdict\<close> resolves, each to a new id with the same coordinates.
\<close>

definition remap_inv ::
  "(int \<times> 'a \<times> 'a) list \<Rightarrow> int \<times> (int \<Rightarrow> int option) \<times> (int \<times> 'a \<times> 'a) list \<Rightarrow> bool" where
  "remap_inv vs state =
     (case state of (cnt, remap, verts) \<Rightarrow>
        cnt = int (length vs)
        \<and> map snd verts = map snd vs
        \<and> (\<forall>k. vertexdict verts k \<noteq> None \<longrightarrow> 0 \<le> k \<and> k < int (length vs))
        \<and> (\<forall>v. case remap v of
                  None \<Rightarrow> vertexdict vs v = None
                | Some k \<Rightarrow> vertexdict vs v \<noteq> None \<and> vertexdict verts k = vertexdict vs v))"

subsection \<open>The geometry cache\<close>





subsection \<open>Locating a point\<close>









subsection \<open>Concrete grids\<close>

text \<open>
  The state after \<^verbatim>\<open>UnstructuredGrid()\<close>: every array absent, offsets and
  rotation zero, the cache empty.
\<close>

definition empty_mesh :: "('a::zero) mesh" where
  "empty_mesh =
     \<lparr>vertices' = None, iverts' = None, xc' = None, yc' = None, top' = None,
      botm' = None, idomain' = None, lenuni' = None, ncpl' = None, crs' = None,
      prjfile' = None, xoff' = 0, yoff' = 0, angrot' = 0, iac' = None, ja' = None,
      neighbors' = None, cache_dict' = (\<lambda>k. None)\<rparr>"

text \<open>
  One cell, the unit square with vertices \<open>(0,0)\<close>, \<open>(1,0)\<close>, \<open>(1,1)\<close>,
  \<open>(0,1)\<close> and center \<open>(0.5, 0.5)\<close>.
\<close>

definition unit_square_args :: "real grid_args" where
  "unit_square_args =
     no_args\<lparr>a_vertices := Some [(0, 0, 0), (1, 1, 0), (2, 1, 1), (3, 0, 1)],
             a_iverts := Some [[Some 0, Some 1, Some 2, Some 3]],
             a_xcenters := Some [1 / 2], a_ycenters := Some [1 / 2]\<rparr>"

text \<open>The state of the unit square grid after construction.\<close>

definition unit_square :: "real mesh" where
  "unit_square =
     empty_mesh\<lparr>vertices' := Some [(0, 0, 0), (1, 1, 0), (2, 1, 1), (3, 0, 1)],
                iverts' := Some [[Some 0, Some 1, Some 2, Some 3]],
                xc' := Some [1 / 2], yc' := Some [1 / 2], ncpl' := Some [1]\<rparr>"

text \<open>The unit square used for two layers: \<^verbatim>\<open>ncpl = [1, 1]\<close>.\<close>

definition two_layers :: "real mesh" where
  "two_layers = unit_square\<lparr>ncpl' := Some [1, 1]\<rparr>"



text \<open>Scenario D: three nodes given by \<^verbatim>\<open>iac\<close> and \<^verbatim>\<open>ja\<close> only.\<close>

definition scenario_d_args :: "real grid_args" where
  "scenario_d_args = no_args\<lparr>a_iac := Some [3, 2, 2], a_ja := Some [0, 1, 2, 1, 0, 2, 0]\<rparr>"

definition scenario_d :: "real mesh" where
  "scenario_d = empty_mesh\<lparr>iac' := Some [3, 2, 2], ja' := Some [0, 1, 2, 1, 0, 2, 0]\<rparr>"

text \<open>A grid whose only cell names a vertex id that no vertex has.\<close>

definition dangling_args :: "real grid_args" where
  "dangling_args =
     no_args\<lparr>a_vertices := Some [(0, 0, 0)], a_iverts := Some [[Some 5]],
             a_xcenters := Some [0], a_ycenters := Some [0]\<rparr>"

definition dangling :: "real mesh" where
  "dangling =
     empty_mesh\<lparr>vertices' := Some [(0, 0, 0)], iverts' := Some [[Some 5]],
                xc' := Some [0], yc' := Some [0], ncpl' := Some [1]\<rparr>"

text \<open>
  The state after \<^verbatim>\<open>UnstructuredGrid(ncpl=[2**62, 2**62])\<close>: two layers whose
  cell counts add up to \<open>2\<^sup>6\<^sup>3\<close>.
\<close>

definition wide_layers :: "real mesh" where
  "wide_layers = empty_mesh\<lparr>ncpl' := Some [4611686018427387904, 4611686018427387904]\<rparr>"






text \<open>
  The unit square with elevations, every array given as a Python list:
  \<^verbatim>\<open>UnstructuredGrid(vertices=[[0, 0., 0.], [1, 1., 0.], [2, 1., 1.], [3, 0., 1.]],
  iverts=[[0, 1, 2, 3]], xcenters=[0.5], ycenters=[0.5], top=[1.], botm=[0.])\<close>.
\<close>

definition complete_square_args :: "real grid_args" where
  "complete_square_args = unit_square_args\<lparr>a_top := Some [1], a_botm := Some [0]\<rparr>"

definition complete_square :: "real mesh" where
  "complete_square = unit_square\<lparr>top' := Some [1], botm' := Some [0]\<rparr>"

definition all_lists :: kinds where
  "all_lists = \<lparr>xc_kind = PyList, yc_kind = PyList, top_kind = PyList, botm_kind = PyList\<rparr>"

section \<open>Properties\<close>

subsection \<open>Cells per layer, node count and layer count\<close>

lemma is_valid_iff:
  "is_valid m \<longleftrightarrow>
     iverts' m \<noteq> None \<and> vertices' m \<noteq> None \<and> xc' m \<noteq> None \<and> yc' m \<noteq> None"
  by (simp add: is_valid_def Let_def)

lemma is_valid_cache [simp]: "is_valid (require_cache_updates m) = is_valid m"
  by (simp add: is_valid_iff require_cache_updates_def)

lemma set_ncpl_NInt:
  "int64 n \<Longrightarrow> set_ncpl m (NInt n) = Inr (require_cache_updates (m\<lparr>ncpl' := Some [n]\<rparr>))"
  by (simp add: set_ncpl_def)

lemma wrap64_id: "int64 i \<Longrightarrow> wrap64 i = i"
  by (simp add: int64_def wrap64_def)

lemma set_ncpl_result:
  "set_ncpl m v = Inr m2 \<Longrightarrow>
   \<exists>c. (v = NArr 1 c \<or> (\<exists>n. v = NInt n \<and> int64 n \<and> c = [n])) \<and> ncpl' m2 = Some c"
  by (auto simp: set_ncpl_def require_cache_updates_def
      split: ncpl_arg.splits if_splits)

lemma init_default_ncpl:
  assumes "a_ncpl a = None" and "a_vertices a \<noteq> None"
    and "init_arrays a = (Some xs, Some ys, Some ivs)"
    and "int64 (int (length ivs))"
  shows "\<exists>m. init a = Inr m \<and> is_valid m \<and> iverts' m = Some ivs
           \<and> ncpl' m = Some [int (length ivs)]"
  using assms
  by (simp add: init_def is_valid_iff set_ncpl_NInt check_iverts_def
      grid_varies_by_layer_def require_cache_updates_def getitem_def nnodes_def)

text \<open>
  C6 (amended). A grid constructed without \<^verbatim>\<open>ncpl\<close> that is valid at
  construction (the vertices are given, and so are the centers and cell lists, separately
  or through \<^verbatim>\<open>cell2d\<close>; the number of cells fits a 64-bit integer, as the length
  of every Python list does) is constructed without error and has
  \<^verbatim>\<open>ncpl = [len(iverts)]\<close>. In every state whose \<^verbatim>\<open>ncpl\<close> is set,
  \<^verbatim>\<open>nlay\<close> is the length of \<^verbatim>\<open>ncpl\<close> and \<^verbatim>\<open>nnodes\<close> is the sum of
  \<^verbatim>\<open>ncpl\<close> wrapped to 64 bits, hence the sum itself whenever the sum is in the
  64-bit range: both are computed from \<^verbatim>\<open>ncpl\<close> on every read, so this holds
  after every operation. A successful \<^verbatim>\<open>set_ncpl\<close> stores the elements of its
  argument (the one integer, or the elements of the one-dimensional array).
\<close>

theorem ncpl_nnodes_nlay:
  "(a_ncpl a = None \<and> a_vertices a \<noteq> None
      \<and> init_arrays a = (Some xs, Some ys, Some ivs) \<and> int64 (int (length ivs))
      \<longrightarrow> (\<exists>m. init a = Inr m \<and> is_valid m \<and> iverts' m = Some ivs
             \<and> ncpl' m = Some [int (length ivs)]))
   \<and> (\<forall>m c. ncpl' (m :: 'a mesh) = Some c
         \<longrightarrow> nlay m = Some (int (length c))
             \<and> nnodes m = Some (wrap64 (sum_list c))
             \<and> (int64 (sum_list c) \<longrightarrow> nnodes m = Some (sum_list c)))
   \<and> (\<forall>m v m2. set_ncpl (m :: 'a mesh) v = Inr m2
         \<longrightarrow> (\<exists>c. (v = NArr 1 c \<or> (\<exists>n. v = NInt n \<and> int64 n \<and> c = [n]))
                \<and> ncpl' m2 = Some c \<and> nlay m2 = Some (int (length c))
                \<and> nnodes m2 = Some (wrap64 (sum_list c))))"
proof (intro conjI impI allI)
  assume "a_ncpl a = None \<and> a_vertices a \<noteq> None
            \<and> init_arrays a = (Some xs, Some ys, Some ivs) \<and> int64 (int (length ivs))"
  then show "\<exists>m. init a = Inr m \<and> is_valid m \<and> iverts' m = Some ivs
               \<and> ncpl' m = Some [int (length ivs)]"
    using init_default_ncpl by blast
next
  fix m :: "'a mesh" and c
  assume "ncpl' m = Some c"
  then show "nlay m = Some (int (length c))" by (simp add: nlay_def)
next
  fix m :: "'a mesh" and c
  assume "ncpl' m = Some c"
  then show "nnodes m = Some (wrap64 (sum_list c))" by (simp add: nnodes_def)
next
  fix m :: "'a mesh" and c
  assume "ncpl' m = Some c" and "int64 (sum_list c)"
  then show "nnodes m = Some (sum_list c)" by (simp add: nnodes_def wrap64_id)
next
  fix m m2 :: "'a mesh" and v
  assume "set_ncpl m v = Inr m2"
  then obtain c where c: "v = NArr 1 c \<or> (\<exists>n. v = NInt n \<and> int64 n \<and> c = [n])"
    "ncpl' m2 = Some c"
    using set_ncpl_result by blast
  from c(2) have "nlay m2 = Some (int (length c))"
    "nnodes m2 = Some (wrap64 (sum_list c))"
    by (simp_all add: nnodes_def nlay_def)
  with c show "\<exists>c. (v = NArr 1 c \<or> (\<exists>n. v = NInt n \<and> int64 n \<and> c = [n]))
               \<and> ncpl' m2 = Some c \<and> nlay m2 = Some (int (length c))
               \<and> nnodes m2 = Some (wrap64 (sum_list c))"
    by blast
qed

text \<open>
  C6 as stated fails: \<^verbatim>\<open>set_ncpl([2**62, 2**62])\<close> is accepted, and then
  \<^verbatim>\<open>nnodes\<close> is \<open>-2\<^sup>6\<^sup>3\<close> where the sum of \<^verbatim>\<open>ncpl\<close> is \<open>2\<^sup>6\<^sup>3\<close>.
\<close>

theorem nnodes_wraps:
  "set_ncpl (empty_mesh :: real mesh)
       (NArr 1 [4611686018427387904, 4611686018427387904]) = Inr wide_layers
   \<and> ncpl' wide_layers = Some [4611686018427387904, 4611686018427387904]
   \<and> sum_list [4611686018427387904, 4611686018427387904 :: int] = 9223372036854775808
   \<and> nnodes wide_layers = Some (- 9223372036854775808)"
  by (simp add: wide_layers_def set_ncpl_def require_cache_updates_def empty_mesh_def
      nnodes_def wrap64_def)

text \<open>The amended C6 on the unit square, and on a call of \<^verbatim>\<open>set_ncpl\<close>.\<close>

theorem ncpl_nnodes_nlay_witness:
  "(\<exists>m. init unit_square_args = Inr m \<and> ncpl' m = Some [1] \<and> nnodes m = Some 1
        \<and> nlay m = Some 1)
   \<and> (\<exists>m2. set_ncpl (empty_mesh :: real mesh) (NInt 3) = Inr m2
          \<and> ncpl' m2 = Some [3] \<and> nnodes m2 = Some 3 \<and> nlay m2 = Some 1)"
proof -
  have args: "a_ncpl unit_square_args = None \<and> a_vertices unit_square_args \<noteq> None
      \<and> init_arrays unit_square_args
          = (Some [1 / 2], Some [1 / 2], Some [[Some 0, Some 1, Some 2, Some 3]])
      \<and> int64 (int (length [[Some (0 :: int), Some 1, Some 2, Some 3]]))"
    by (simp add: unit_square_args_def no_args_def init_arrays_def int64_def)
  note inst = ncpl_nnodes_nlay [of unit_square_args "[1 / 2]" "[1 / 2]"
      "[[Some 0, Some 1, Some 2, Some 3]]"]
  from inst args obtain m :: "real mesh"
    where m: "init unit_square_args = Inr m" "ncpl' m = Some [1]"
    by fastforce
  have one: "int64 (sum_list [1])" by (simp add: int64_def)
  from inst have "ncpl' m = Some [1]
      \<longrightarrow> nlay m = Some (int (length [1 :: int]))
          \<and> nnodes m = Some (wrap64 (sum_list [1]))
          \<and> (int64 (sum_list [1]) \<longrightarrow> nnodes m = Some (sum_list [1]))"
    by blast
  with m(2) one have "nnodes m = Some 1 \<and> nlay m = Some 1" by (simp add: wrap64_def)
  with m have first: "\<exists>m. init unit_square_args = Inr m \<and> ncpl' m = Some [1]
      \<and> nnodes m = Some 1 \<and> nlay m = Some 1"
    by blast
  have run: "set_ncpl (empty_mesh :: real mesh) (NInt 3)
      = Inr (require_cache_updates (empty_mesh\<lparr>ncpl' := Some [3]\<rparr>))"
    by (simp add: set_ncpl_def int64_def)
  from inst run obtain c
    where c: "NInt 3 = NArr 1 c \<or> (\<exists>n. NInt 3 = NInt n \<and> int64 n \<and> c = [n])"
      "ncpl' (require_cache_updates ((empty_mesh :: real mesh)\<lparr>ncpl' := Some [3]\<rparr>)) = Some c"
      "nlay (require_cache_updates ((empty_mesh :: real mesh)\<lparr>ncpl' := Some [3]\<rparr>))
         = Some (int (length c))"
      "nnodes (require_cache_updates ((empty_mesh :: real mesh)\<lparr>ncpl' := Some [3]\<rparr>))
         = Some (wrap64 (sum_list c))"
    by blast
  from c(1) have "c = [3]" by auto
  with c run have "\<exists>m2. set_ncpl (empty_mesh :: real mesh) (NInt 3) = Inr m2
          \<and> ncpl' m2 = Some [3] \<and> nnodes m2 = Some 3 \<and> nlay m2 = Some 1"
    by (simp add: wrap64_def)
  with first show ?thesis by blast
qed

subsection \<open>Completeness\<close>

text \<open>
  The test of \<^verbatim>\<open>is_valid\<close> in \<^verbatim>\<open>is_complete\<close> never fails: the property
  returns what the base class's property returns.
\<close>

lemma is_complete_super: "is_complete super_is_complete m = super_is_complete"
  by (simp add: is_complete_def)

lemmas init_simps = init_def init_arrays_def no_args_def empty_mesh_def is_valid_iff
  check_iverts_def grid_varies_by_layer_def set_ncpl_def require_cache_updates_def
  getitem_def nnodes_def int64_def wrap64_def

lemma init_unit_square: "init unit_square_args = Inr unit_square"
  by (simp add: unit_square_args_def unit_square_def init_simps)

lemma init_two_layers:
  "init (unit_square_args\<lparr>a_ncpl := Some (NArr 1 [1, 1])\<rparr>) = Inr two_layers"
  by (simp add: unit_square_args_def two_layers_def unit_square_def init_simps)


lemma init_scenario_d: "init scenario_d_args = Inr scenario_d"
  by (simp add: scenario_d_args_def scenario_d_def init_simps)

subsection \<open>The cell table\<close>









subsection \<open>Neighbors\<close>

text \<open>
  C8. Scenario D (\<^verbatim>\<open>iac = [3, 2, 2]\<close>, \<^verbatim>\<open>ja = [0, 1, 2, 1, 0, 2, 0]\<close>): the
  first call \<^verbatim>\<open>neighbors(node=0, method="iac")\<close> returns \<^verbatim>\<open>[1]\<close>, where the
  spec's slice is \<^verbatim>\<open>[1, 2]\<close>; and once the table is built,
  \<^verbatim>\<open>neighbors(node=1, method="iac")\<close> returns \<^verbatim>\<open>[1]\<close>, where the spec's slice
  is \<^verbatim>\<open>[0]\<close>.
\<close>

theorem neighbors_iac_scenario_d:
  "init scenario_d_args = Inr scenario_d
   \<and> fst (neighbors_iac scenario_d (Some 0) False) = Inr (NodeNeighbors [1])
   \<and> spec_neighbors [3, 2, 2] [0, 1, 2, 1, 0, 2, 0] 0 = [1, 2]
   \<and> fst (neighbors_iac (snd (neighbors_iac scenario_d None False)) (Some 1) False)
       = Inr (NodeNeighbors [1])
   \<and> spec_neighbors [3, 2, 2] [0, 1, 2, 1, 0, 2, 0] 1 = [0]"
  by (simp add: init_scenario_d)
    (simp add: neighbors_iac_def scenario_d_def empty_mesh_def slice_def slice_bound_def
      spec_neighbors_def)

subsection \<open>The header of a grid specification file\<close>

lemma split_line_gwf: "split_line ''UNSTRUCTURED GWF'' = [''UNSTRUCTURED'', ''GWF'']"
  by (simp add: split_line_def str_strip_def str_split_def isspace_def str_upper_def
      upper_char_def)

lemma split_line_unstructured: "split_line ''UNSTRUCTURED'' = [''UNSTRUCTURED'']"
  by (simp add: split_line_def str_strip_def str_split_def isspace_def str_upper_def
      upper_char_def)

text \<open>
  C4. A file whose first line is \<^verbatim>\<open>UNSTRUCTURED GWF\<close> is refused with
  \<^verbatim>\<open>ValueError("Invalid GSF file, no header")\<close>, whatever follows; a file whose
  first line is \<^verbatim>\<open>UNSTRUCTURED\<close> alone passes the check.
\<close>

theorem gridspec_header_gwf:
  "gridspec_header (''UNSTRUCTURED GWF'' # body)
     = Inl (ValueError ''Invalid GSF file, no header'')
   \<and> gridspec_header (''UNSTRUCTURED'' # body) = Inr body"
  by (cases body)
    (simp_all add: gridspec_header_def split_line_gwf split_line_unstructured
      starts_comment_def invalid_header_def)

subsection \<open>Merging duplicate vertices\<close>

lemma init_dangling: "init dangling_args = Inr dangling"
  by (simp add: dangling_args_def dangling_def init_simps)

text \<open>
  C10. On a grid that is not valid, \<^verbatim>\<open>clean_iverts\<close> returns \<^verbatim>\<open>None\<close> without
  raising, for either value of \<^verbatim>\<open>inplace\<close>, and leaves every attribute of the grid
  as it was.
\<close>

theorem clean_iverts_invalid:
  "\<not> is_valid m \<Longrightarrow> clean_iverts m inplace = (Inr None, m)"
  by (simp add: clean_iverts_def)


theorem clean_iverts_invalid_witness:
  "clean_iverts (empty_mesh :: real mesh) True = (Inr None, empty_mesh)
   \<and> clean_iverts (empty_mesh :: real mesh) False = (Inr None, empty_mesh)"
proof -
  have "\<not> is_valid (empty_mesh :: real mesh)"
    by (simp add: empty_mesh_def is_valid_iff)
  then show ?thesis
    using clean_iverts_invalid [of "empty_mesh :: real mesh" True]
      clean_iverts_invalid [of "empty_mesh :: real mesh" False]
    by simp
qed

subsection \<open>The round trip of \<^verbatim>\<open>clean_iverts\<close>\<close>

text \<open>
  With pairwise distinct coordinates the first loop makes one entry per vertex, in the
  order of the vertex list.
\<close>

lemma dict_set_fresh: "k \<notin> fst ` set d \<Longrightarrow> dict_set k v d = d @ [(k, v)]"
  by (induction d) auto

lemma vset_distinct:
  "distinct (map snd vs) \<Longrightarrow>
   foldl vset_step [] vs = map (\<lambda>v. (snd v, [fst v])) vs"
proof (induction vs rule: rev_induct)
  case Nil
  then show ?case by simp
next
  case (snoc v vs)
  obtain iv x y where v: "v = (iv, x, y)" by (cases v)
  from snoc.prems have d: "distinct (map snd vs)"
    and fresh: "(x, y) \<notin> snd ` set vs"
    by (simp_all add: v)
  have keys: "fst ` set (map (\<lambda>v. (snd v, [fst v])) vs) = snd ` set vs"
    by force
  with fresh have none: "map_of (map (\<lambda>v. (snd v, [fst v])) vs) (x, y) = None"
    by (simp add: map_of_eq_None_iff)
  from fresh keys
  have "dict_set (x, y) [iv] (map (\<lambda>v. (snd v, [fst v])) vs)
      = map (\<lambda>v. (snd v, [fst v])) vs @ [((x, y), [iv])]"
    by (intro dict_set_fresh) simp
  with snoc.IH [OF d] none show ?case
    by (simp add: v vset_step_def)
qed

text \<open>The vertex dictionary, and the invariant of the renumbering loop.\<close>

lemma vertexdict_snoc:
  "vertexdict (vs @ [(iv, x, y)]) = (vertexdict vs)(iv \<mapsto> (x, y))"
  by (simp add: vertexdict_def)

lemma vertexdict_None: "vertexdict vs v = None \<longleftrightarrow> v \<notin> fst ` set vs"
proof (induction vs rule: rev_induct)
  case Nil
  then show ?case by (simp add: vertexdict_def)
next
  case (snoc a vs)
  obtain iv x y where a: "a = (iv, x, y)" by (cases a)
  from snoc show ?case by (auto simp: a vertexdict_snoc)
qed


lemma remap_loop_inv:
  "remap_inv vs (foldl remap_step (0, Map.empty, []) (map (\<lambda>v. (snd v, [fst v])) vs))"
proof (induction vs rule: rev_induct)
  case Nil
  then show ?case by (simp add: remap_inv_def vertexdict_def)
next
  case (snoc a vs)
  obtain iv x y where a: "a = (iv, x, y)" by (cases a)
  obtain cnt remap verts where st:
    "foldl remap_step (0, Map.empty, []) (map (\<lambda>v. (snd v, [fst v])) vs)
       = (cnt, remap, verts)"
    using prod_cases3 by blast
  from snoc.IH have ih: "remap_inv vs (cnt, remap, verts)"
    by (simp only: st)
  from ih have cnt: "cnt = int (length vs)"
    unfolding remap_inv_def prod.case by (rule conjunct1)
  from ih have coords: "map snd verts = map snd vs"
    unfolding remap_inv_def prod.case by blast
  from ih have keys0: "\<forall>k. vertexdict verts k \<noteq> None \<longrightarrow> 0 \<le> k \<and> k < int (length vs)"
    unfolding remap_inv_def prod.case by blast
  have keys: "0 \<le> k \<and> k < int (length vs)" if "vertexdict verts k \<noteq> None" for k
    using keys0 that by blast
  from ih have rel0: "\<forall>v. case remap v of
                  None \<Rightarrow> vertexdict vs v = None
                | Some k \<Rightarrow> vertexdict vs v \<noteq> None \<and> vertexdict verts k = vertexdict vs v"
    unfolding remap_inv_def prod.case by blast
  have rel: "case remap v of
                  None \<Rightarrow> vertexdict vs v = None
                | Some k \<Rightarrow> vertexdict vs v \<noteq> None \<and> vertexdict verts k = vertexdict vs v" for v
    using rel0 by (rule spec)
  have fresh: "vertexdict verts cnt = None"
  proof (rule ccontr)
    assume "vertexdict verts cnt \<noteq> None"
    from keys [OF this] cnt show False by simp
  qed
  have step: "foldl remap_step (0, Map.empty, [])
        (map (\<lambda>v. (snd v, [fst v])) (vs @ [a]))
      = (cnt + 1, remap(iv \<mapsto> cnt), verts @ [(cnt, x, y)])"
    by (simp add: st a remap_step_def)
  have c1: "cnt + 1 = int (length (vs @ [a]))" using cnt by simp
  have c2: "map snd (verts @ [(cnt, x, y)]) = map snd (vs @ [a])"
    using coords by (simp add: a)
  have c3: "\<forall>k. vertexdict (verts @ [(cnt, x, y)]) k \<noteq> None
              \<longrightarrow> 0 \<le> k \<and> k < int (length (vs @ [a]))"
  proof (intro allI impI)
    fix k
    assume k: "vertexdict (verts @ [(cnt, x, y)]) k \<noteq> None"
    show "0 \<le> k \<and> k < int (length (vs @ [a]))"
    proof (cases "k = cnt")
      case True
      then show ?thesis using cnt by simp
    next
      case False
      with k have "vertexdict verts k \<noteq> None" by (simp add: vertexdict_snoc)
      from keys [OF this] show ?thesis by simp
    qed
  qed
  have c4: "\<forall>v. case (remap(iv \<mapsto> cnt)) v of
            None \<Rightarrow> vertexdict (vs @ [a]) v = None
          | Some k \<Rightarrow> vertexdict (vs @ [a]) v \<noteq> None
              \<and> vertexdict (verts @ [(cnt, x, y)]) k = vertexdict (vs @ [a]) v"
  proof
    fix v
    show "case (remap(iv \<mapsto> cnt)) v of
            None \<Rightarrow> vertexdict (vs @ [a]) v = None
          | Some k \<Rightarrow> vertexdict (vs @ [a]) v \<noteq> None
              \<and> vertexdict (verts @ [(cnt, x, y)]) k = vertexdict (vs @ [a]) v"
    proof (cases "v = iv")
      case True
      then show ?thesis by (simp add: a vertexdict_snoc)
    next
      case False
      show ?thesis
      proof (cases "remap v")
        case None
        with rel [of v] False show ?thesis by (simp add: a vertexdict_snoc)
      next
        case (Some k)
        with rel [of v] have r: "vertexdict vs v \<noteq> None" "vertexdict verts k = vertexdict vs v"
          by simp_all
        then have "k \<noteq> cnt" using fresh by auto
        with Some r False show ?thesis by (simp add: a vertexdict_snoc)
      qed
    qed
  qed
  have "remap_inv (vs @ [a]) (cnt + 1, remap(iv \<mapsto> cnt), verts @ [(cnt, x, y)])"
    unfolding remap_inv_def prod.case using c1 c2 c3 c4 by blast
  then show ?case by (simp only: step)
qed

text \<open>
  Resolving renumbered cells in the new dictionary gives what the old cells give in the
  old one, and resolving never fails when every id is known.
\<close>

lemma map_err_all:
  "\<forall>x \<in> set xs. f x = Inr (g x) \<Longrightarrow> map_err f xs = Inr (map g xs)"
  by (induction xs) simp_all

lemma cellvert_cong:
  "\<forall>v \<in> set cell. vd2 (f v) = vd v \<Longrightarrow> cellvert vd2 (map f cell) = cellvert vd cell"
proof (induction cell)
  case Nil
  show ?case by simp
next
  case (Cons a cell)
  then have ih: "cellvert vd2 (map f cell) = cellvert vd cell"
    and eq: "vd2 (f a) = vd a"
    by simp_all
  show ?case
    by (simp add: ih eq cong: option.case_cong prod.case_cong)
qed

lemma xyvertices_cong:
  "\<forall>cell \<in> set cells. \<forall>v \<in> set cell. vd2 (f v) = vd v \<Longrightarrow>
   xyvertices vd2 (map (map f) cells) = xyvertices vd cells"
proof (induction cells)
  case Nil
  show ?case by simp
next
  case (Cons cell cells)
  then have ih: "xyvertices vd2 (map (map f) cells) = xyvertices vd cells"
    and eq: "cellvert vd2 (map f cell) = cellvert vd cell"
    by (simp_all add: cellvert_cong)
  show ?case
    by (simp add: ih eq cong: sum.case_cong prod.case_cong)
qed

lemma cellvert_defined:
  "\<forall>v \<in> set cell. vd v \<noteq> None \<Longrightarrow> \<exists>g. cellvert vd cell = Inr g"
  by (induction cell) auto

lemma xyvertices_defined:
  "\<forall>cell \<in> set cells. \<forall>v \<in> set cell. vd v \<noteq> None \<Longrightarrow> \<exists>g. xyvertices vd cells = Inr g"
proof (induction cells)
  case Nil
  then show ?case by simp
next
  case (Cons cell cells)
  then obtain g where "cellvert vd cell = Inr g"
    using cellvert_defined [of cell vd] by auto
  moreover from Cons obtain h where "xyvertices vd cells = Inr h" by auto
  ultimately show ?case by (cases g, cases h) simp
qed

lemma filter_Some: "[ivt. Some ivt \<leftarrow> map Some cell] = cell"
  by (induction cell) simp_all

lemma iverts_Some:
  "iverts' m = Some (map (map Some) ivs) \<Longrightarrow> iverts m = Some ivs"
  by (simp add: iverts_def filter_Some comp_def)

text \<open>
  The constructor's check reads the validity, \<^verbatim>\<open>ncpl\<close> and the number of cells
  only, so the grid rebuilt from the cleaned arrays passes it when the original does.
\<close>

lemma check_iverts_cong:
  assumes v: "is_valid m2 = is_valid m" and c: "ncpl' m2 = ncpl' m"
    and l: "map_option length (iverts' m2) = map_option length (iverts' m)"
  shows "check_iverts m2 = check_iverts m"
proof (cases "iverts' m")
  case None
  with l have "iverts' m2 = None" by simp
  with None show ?thesis by (simp add: check_iverts_def)
next
  case (Some ivs)
  with l obtain ivs2 where ivs2: "iverts' m2 = Some ivs2" "length ivs2 = length ivs"
    by (cases "iverts' m2") auto
  have gv: "grid_varies_by_layer m2 = grid_varies_by_layer m"
    unfolding grid_varies_by_layer_def v c Some ivs2 option.case ..
  have nn: "nnodes m2 = nnodes m"
    by (simp add: nnodes_def c)
  show ?thesis
    unfolding check_iverts_def gv nn c Some ivs2 option.case ..
qed

lemma check_iverts_ncpl:
  assumes "is_valid m" and "check_iverts m = Inr ()"
  shows "\<exists>c. ncpl' m = Some c"
proof (cases "ncpl' m")
  case None
  from assms(1) obtain ivs where "iverts' m = Some ivs"
    by (auto simp: is_valid_iff)
  with assms None show ?thesis
    by (simp add: check_iverts_def grid_varies_by_layer_def)
next
  case (Some c)
  then show ?thesis by simp
qed

lemma init_clean_args:
  assumes valid: "is_valid m" and shape: "check_iverts m = Inr ()"
    and ivs0: "iverts' m = Some ivs0" and len: "length ivs = length ivs0"
  shows "init (clean_args m verts ivs) =
         Inr (m\<lparr>vertices' := Some verts, iverts' := Some (map (map Some) ivs),
                neighbors' := None, cache_dict' := (\<lambda>k. None)\<rparr>)"
proof -
  from check_iverts_ncpl [OF valid shape] obtain c where c: "ncpl' m = Some c" ..
  define m1 where "m1 = require_cache_updates
      \<lparr>vertices' = Some verts, iverts' = Some (map (map Some) ivs),
       xc' = xc' m, yc' = yc' m, top' = top' m, botm' = botm' m,
       idomain' = idomain' m, lenuni' = lenuni' m, ncpl' = Some c,
       crs' = crs' m, prjfile' = prjfile' m, xoff' = xoff' m,
       yoff' = yoff' m, angrot' = angrot' m, iac' = None, ja' = None,
       neighbors' = None, cache_dict' = (\<lambda>k. None)\<rparr>"
  have v1: "is_valid m1 = is_valid m"
    using valid by (simp add: m1_def is_valid_iff require_cache_updates_def)
  have c1: "ncpl' m1 = ncpl' m"
    by (simp add: m1_def c require_cache_updates_def)
  have l1: "map_option length (iverts' m1) = map_option length (iverts' m)"
    by (simp add: m1_def ivs0 len require_cache_updates_def)
  have chk: "check_iverts m1 = Inr ()"
    using check_iverts_cong [OF v1 c1 l1] shape by simp
  have fin: "m1\<lparr>iac' := iac' m, ja' := ja' m\<rparr> =
      m\<lparr>vertices' := Some verts, iverts' := Some (map (map Some) ivs),
        neighbors' := None, cache_dict' := (\<lambda>k. None)\<rparr>"
    by (simp add: m1_def require_cache_updates_def c [symmetric])
  have "init (clean_args m verts ivs) = Inr (m1\<lparr>iac' := iac' m, ja' := ja' m\<rparr>)"
    unfolding init_def clean_args_def init_arrays_def
    by (simp add: c set_ncpl_def chk [unfolded m1_def]) (simp add: m1_def)
  with fin show ?thesis by simp
qed

lemma iverts_length:
  "iverts m = Some cells \<Longrightarrow> \<exists>ivs0. iverts' m = Some ivs0 \<and> length ivs0 = length cells"
  by (auto simp: iverts_def split: option.splits)


text \<open>
  C7 (amended). Take a valid grid whose vertices have pairwise distinct coordinates,
  whose cells name only ids of the vertex list, and which passes the constructor's check
  of the number of cells against \<^verbatim>\<open>ncpl\<close>. Then \<^verbatim>\<open>clean_iverts(inplace=False)\<close>
  returns a new grid and leaves the grid itself as it was; resolving the cells of the new
  grid gives the same coordinate sequences as resolving the cells of the original; and
  the centers, elevations, \<^verbatim>\<open>ncpl\<close>, offsets, rotation, \<^verbatim>\<open>idomain\<close>,
  \<^verbatim>\<open>lenuni\<close>, \<^verbatim>\<open>crs\<close>, \<^verbatim>\<open>prjfile\<close>, \<^verbatim>\<open>iac\<close> and \<^verbatim>\<open>ja\<close> are those
  of the original.
\<close>

theorem clean_iverts_round_trip:
  assumes valid: "is_valid m"
    and vs: "vertices' m = Some vs"
    and cells: "iverts m = Some cells"
    and dist: "distinct (map snd vs)"
    and ids: "\<forall>cell \<in> set cells. \<forall>v \<in> set cell. v \<in> fst ` set vs"
    and shape: "check_iverts m = Inr ()"
  shows "\<exists>new g. clean_iverts m False = (Inr (Some new), m)
           \<and> cell_geometry m = Inr g \<and> cell_geometry new = Inr g
           \<and> xc' new = xc' m \<and> yc' new = yc' m
           \<and> top' new = top' m \<and> botm' new = botm' m
           \<and> ncpl' new = ncpl' m \<and> xoff' new = xoff' m
           \<and> yoff' new = yoff' m \<and> angrot' new = angrot' m
           \<and> idomain' new = idomain' m \<and> lenuni' new = lenuni' m
           \<and> crs' new = crs' m \<and> prjfile' new = prjfile' m
           \<and> iac' new = iac' m \<and> ja' new = ja' m"
proof -
  obtain cnt remap verts where st:
    "foldl remap_step (0, Map.empty, []) (map (\<lambda>v. (snd v, [fst v])) vs)
       = (cnt, remap, verts)"
    using prod_cases3 by blast
  have "remap_inv vs (cnt, remap, verts)"
    using remap_loop_inv [of vs] by (simp only: st)
  then have rel0: "\<forall>v. case remap v of
                  None \<Rightarrow> vertexdict vs v = None
                | Some k \<Rightarrow> vertexdict vs v \<noteq> None \<and> vertexdict verts k = vertexdict vs v"
    unfolding remap_inv_def prod.case by blast
  define f where "f = (\<lambda>v. the (remap v))"
  have known: "vertexdict vs v \<noteq> None" if "cell \<in> set cells" "v \<in> set cell" for cell v
    using ids that by (simp add: vertexdict_None)
  have res: "remap v = Some (f v) \<and> vertexdict verts (f v) = vertexdict vs v"
    if "cell \<in> set cells" "v \<in> set cell" for cell v
  proof (cases "remap v")
    case None
    with rel0 [rule_format, of v] known [OF that] show ?thesis by simp
  next
    case (Some k)
    with rel0 [rule_format, of v] show ?thesis by (simp add: f_def)
  qed
  have inner: "map_err (dict_item remap) cell = Inr (map f cell)" if "cell \<in> set cells" for cell
    by (rule map_err_all) (simp add: dict_item_def res [OF that])
  have outer: "map_err (map_err (dict_item remap)) cells = Inr (map (map f) cells)"
    by (rule map_err_all) (simp add: inner)
  from iverts_length [OF cells] obtain ivs0
    where ivs0: "iverts' m = Some ivs0" "length ivs0 = length cells" by blast
  define new where "new = m\<lparr>vertices' := Some verts,
      iverts' := Some (map (map Some) (map (map f) cells)),
      neighbors' := None, cache_dict' := (\<lambda>k. None)\<rparr>"
  have built: "init (clean_args m verts (map (map f) cells)) = Inr new"
    unfolding new_def
    by (rule init_clean_args [OF valid shape ivs0(1)]) (simp add: ivs0(2))
  have run: "clean_iverts m False = (Inr (Some new), m)"
    by (simp add: clean_iverts_def valid vs cells vset_distinct [OF dist] st outer built)
  from xyvertices_defined [of cells "vertexdict vs"] known
  obtain g where g: "xyvertices (vertexdict vs) cells = Inr g" by blast
  have old: "cell_geometry m = Inr g"
    by (simp add: cell_geometry_def vs cells g)
  have "iverts new = Some (map (map f) cells)"
    by (rule iverts_Some) (simp add: new_def)
  moreover have "xyvertices (vertexdict verts) (map (map f) cells)
      = xyvertices (vertexdict vs) cells"
    by (rule xyvertices_cong) (simp add: res)
  ultimately have geo: "cell_geometry new = Inr g"
    by (simp add: cell_geometry_def new_def g)
  have attrs: "xc' new = xc' m \<and> yc' new = yc' m
           \<and> top' new = top' m \<and> botm' new = botm' m
           \<and> ncpl' new = ncpl' m \<and> xoff' new = xoff' m
           \<and> yoff' new = yoff' m \<and> angrot' new = angrot' m
           \<and> idomain' new = idomain' m \<and> lenuni' new = lenuni' m
           \<and> crs' new = crs' m \<and> prjfile' new = prjfile' m
           \<and> iac' new = iac' m \<and> ja' new = ja' m"
    by (simp add: new_def)
  from run old geo attrs show ?thesis by blast
qed

text \<open>
  C7 as stated fails on a valid grid with distinct coordinates: the grid built by
  \<^verbatim>\<open>UnstructuredGrid(vertices=[[0, 0., 0.]], iverts=[[5]], xcenters=[0.], ycenters=[0.])\<close>
  is valid, and \<^verbatim>\<open>clean_iverts\<close> raises \<^verbatim>\<open>KeyError\<close> at \<^verbatim>\<open>ivert_remap[5]\<close>.
\<close>

theorem clean_iverts_dangling:
  "init dangling_args = Inr dangling \<and> is_valid dangling
   \<and> vertices' dangling = Some [(0, 0, 0)]
   \<and> clean_iverts dangling False = (Inl KeyError, dangling)"
  by (simp add: dangling_args_def dangling_def init_simps clean_iverts_def iverts_def
      vset_step_def remap_step_def dict_item_def)

text \<open>The amended C7 on the unit square.\<close>

theorem clean_iverts_round_trip_witness:
  "is_valid unit_square
   \<and> vertices' unit_square = Some [(0, 0, 0), (1, 1, 0), (2, 1, 1), (3, 0, 1)]
   \<and> iverts unit_square = Some [[0, 1, 2, 3]]
   \<and> check_iverts unit_square = Inr ()
   \<and> (\<exists>new. clean_iverts unit_square False = (Inr (Some new), unit_square)
         \<and> cell_geometry unit_square = Inr ([[0, 1, 1, 0]], [[0, 0, 1, 1]])
         \<and> cell_geometry new = Inr ([[0, 1, 1, 0]], [[0, 0, 1, 1]])
         \<and> xc' new = Some [1 / 2] \<and> ncpl' new = Some [1])"
proof -
  have valid: "is_valid unit_square"
    by (simp add: unit_square_def empty_mesh_def is_valid_iff)
  have vs: "vertices' unit_square = Some [(0, 0, 0), (1, 1, 0), (2, 1, 1), (3, 0, 1)]"
    by (simp add: unit_square_def empty_mesh_def)
  have cells: "iverts unit_square = Some [[0, 1, 2, 3]]"
    by (simp add: unit_square_def empty_mesh_def iverts_def)
  have dist: "distinct (map snd [(0::int, 0::real, 0::real), (1, 1, 0), (2, 1, 1), (3, 0, 1)])"
    by simp
  have ids: "\<forall>cell \<in> set [[0, 1, 2, 3::int]]. \<forall>v \<in> set cell.
      v \<in> fst ` set [(0::int, 0::real, 0::real), (1, 1, 0), (2, 1, 1), (3, 0, 1)]"
    by simp
  have shape: "check_iverts unit_square = Inr ()"
    by (simp add: unit_square_def init_simps)
  have geo: "cell_geometry unit_square = Inr ([[0, 1, 1, 0]], [[0, 0, 1, 1]])"
    by (simp add: cell_geometry_def vs cells vertexdict_def)
  have xc: "xc' unit_square = Some [1 / 2]" and nc: "ncpl' unit_square = Some [1]"
    by (simp_all add: unit_square_def empty_mesh_def)
  from clean_iverts_round_trip [OF valid vs cells dist ids shape]
  obtain new g where r: "clean_iverts unit_square False = (Inr (Some new), unit_square)"
    "cell_geometry unit_square = Inr g" "cell_geometry new = Inr g"
    "xc' new = xc' unit_square" "ncpl' new = ncpl' unit_square"
    by blast
  from r geo xc nc have "clean_iverts unit_square False = (Inr (Some new), unit_square)
         \<and> cell_geometry unit_square = Inr ([[0, 1, 1, 0]], [[0, 0, 1, 1]])
         \<and> cell_geometry new = Inr ([[0, 1, 1, 0]], [[0, 0, 1, 1]])
         \<and> xc' new = Some [1 / 2] \<and> ncpl' new = Some [1]"
    by simp
  then have "\<exists>new. clean_iverts unit_square False = (Inr (Some new), unit_square)
         \<and> cell_geometry unit_square = Inr ([[0, 1, 1, 0]], [[0, 0, 1, 1]])
         \<and> cell_geometry new = Inr ([[0, 1, 1, 0]], [[0, 0, 1, 1]])
         \<and> xc' new = Some [1 / 2] \<and> ncpl' new = Some [1]" ..
  with valid vs cells shape show ?thesis by blast
qed

subsection \<open>Locating a point\<close>



















subsection \<open>Scaling a grid\<close>

lemma init_complete_square: "init complete_square_args = Inr complete_square"
  by (simp add: complete_square_args_def complete_square_def unit_square_args_def
      unit_square_def init_simps)

text \<open>A list of centers times the \<^verbatim>\<open>int\<close> 2 is the list repeated, not doubled.\<close>

lemma list_times_int: "seq_times PyList [1 / 2 :: real] (PyInt 2) = Inr [1 / 2, 1 / 2]"
  by (simp add: seq_times_def numeral_2_eq_2)

text \<open>
  C5. The unit square with elevations, given as lists, is accepted by the constructor;
  it is valid and has top and bottom elevations, so it is complete in the spec's sense.
  \<^verbatim>\<open>convert_grid(2.0)\<close> returns no grid for it, whatever the base class's
  \<^verbatim>\<open>is_complete\<close> returns: when that is true, \<^verbatim>\<open>self._xc * factor\<close> raises
  \<^verbatim>\<open>TypeError\<close> (a list times a \<^verbatim>\<open>float\<close>); when it is false,
  \<^verbatim>\<open>convert_grid\<close> raises \<^verbatim>\<open>AssertionError\<close>.
\<close>

theorem convert_grid_list_centers:
  "init complete_square_args = Inr complete_square
   \<and> is_valid complete_square
   \<and> top' complete_square = Some [1] \<and> botm' complete_square = Some [0]
   \<and> convert_grid True all_lists complete_square (PyFloat 2)
       = Inl (TypeError ''list * float'')
   \<and> convert_grid False all_lists complete_square (PyFloat 2)
       = Inl (AssertionError ''Grid is not complete and cannot be converted'')"
  by (simp add: init_complete_square)
    (simp add: complete_square_def unit_square_def convert_grid_def is_complete_def
      all_lists_def seq_times_def num_times_def init_simps numeral_2_eq_2)

end
